theory Spec2Isabelle
  imports Main
begin

section \<open>Errors\<close>

text \<open>
  Go errors are values.  The constructors below are the kinds of error value the
  \<open>auth\<close> package creates or passes on: \<open>errors.New\<close>, the package's sentinel
  \<open>ErrUserNotFound\<close>, the driver's \<open>pgx.ErrNoRows\<close> and its other failures,
  \<open>fmt.Errorf\<close> with \<open>%w\<close>, a gRPC status (code, message, field violations) and a
  run-time panic.
\<close>

datatype code = InvalidArgument | Unauthenticated | PermissionDenied

datatype error =
    Plain string
  | ErrUserNotFound
  | ErrNoRows
  | DriverErr string
  | Wrapped string error
  | StatusErr code string "(string \<times> string) list"
  | Panic string

text \<open>\<open>errors.Is\<close>: the error itself or any error it wraps.\<close>

fun errorsIs :: "error \<Rightarrow> error \<Rightarrow> bool" where
  "errorsIs (Wrapped m e) target = (Wrapped m e = target \<or> errorsIs e target)"
| "errorsIs e target = (e = target)"

section \<open>Roles and the access decision (roles.go)\<close>

record Role =
  ID :: int
  Name :: string
  DisplayName :: string
  Permissions :: "string list"

text \<open>
  \<open>roleToPermissions\<close>: \<open>ps\<close> starts empty and every role's permissions are
  appended to it, in the order of the roles.
\<close>

fun roleToPermissions_loop :: "Role list \<Rightarrow> string list \<Rightarrow> string list" where
  "roleToPermissions_loop [] ps = ps"
| "roleToPermissions_loop (r # rs) ps = roleToPermissions_loop rs (ps @ Permissions r)"

definition roleToPermissions :: "Role list \<Rightarrow> string list" where
  "roleToPermissions rs = roleToPermissions_loop rs []"

text \<open>
  \<open>checkMissingPermissions(wanted, having)\<close>: the first loop fills the map
  \<open>havingSet\<close> (a Go \<open>map[string]struct{}\<close>), the second walks \<open>wanted\<close> and appends
  every entry that is not a key of the map.
\<close>

fun havingSet_loop :: "string list \<Rightarrow> (string \<rightharpoonup> unit) \<Rightarrow> (string \<rightharpoonup> unit)" where
  "havingSet_loop [] m = m"
| "havingSet_loop (p # ps) m = havingSet_loop ps (m(p \<mapsto> ()))"

definition havingSet :: "string list \<Rightarrow> (string \<rightharpoonup> unit)" where
  "havingSet having = havingSet_loop having Map.empty"

fun missing_loop :: "string list \<Rightarrow> (string \<rightharpoonup> unit) \<Rightarrow> string list \<Rightarrow> string list" where
  "missing_loop [] m missing = missing"
| "missing_loop (p # ps) m missing =
     missing_loop ps m (if m p = None then missing @ [p] else missing)"

definition checkMissingPermissions :: "string list \<Rightarrow> string list \<Rightarrow> string list" where
  "checkMissingPermissions wanted having = missing_loop wanted (havingSet having) []"

text \<open>\<open>fmt\<close>'s \<open>%v\<close> of a \<open>[]string\<close>: the entries separated by one space, in brackets.\<close>

fun joinSpace :: "string list \<Rightarrow> string" where
  "joinSpace [] = []"
| "joinSpace [x] = x"
| "joinSpace (x # y # zs) = x @ '' '' @ joinSpace (y # zs)"

definition formatStrings :: "string list \<Rightarrow> string" where
  "formatStrings xs = ''['' @ joinSpace xs @ '']''"

definition deniedMessage :: "string list \<Rightarrow> string" where
  "deniedMessage missed =
     ''You do not have sufficient permissions. Required '' @ formatStrings missed
       @ '' to perform this action''"

section \<open>Status (status.go)\<close>

text \<open>\<open>type status int\<close> with the four constants numbered by \<open>iota\<close>.\<close>

type_synonym status = int

definition StatusUnSpecified :: status where "StatusUnSpecified = 0"
definition StatusDisabled :: status where "StatusDisabled = 1"
definition StatusTerminated :: status where "StatusTerminated = 2"
definition StatusEnabled :: status where "StatusEnabled = 3"

definition statusValues :: "string \<rightharpoonup> status" where
  "statusValues = map_of
     [(''UNSPECIFIED'', StatusUnSpecified),
      (''ENABLED'', StatusEnabled),
      (''DISABLED'', StatusDisabled),
      (''TERMINATED'', StatusTerminated)]"

text \<open>
  \<open>strconv.Atoi\<close> on a 64-bit platform (the image is built for \<open>amd64\<close>): an optional
  sign, then one or more decimal digits and nothing else; a value outside the range of
  \<open>int64\<close> is an error.
\<close>

definition isDigit :: "char \<Rightarrow> bool" where
  "isDigit c = (48 \<le> (of_char c :: nat) \<and> (of_char c :: nat) \<le> 57)"

fun digits_loop :: "string \<Rightarrow> int \<Rightarrow> int option" where
  "digits_loop [] n = Some n"
| "digits_loop (c # cs) n =
     (if isDigit c then digits_loop cs (n * 10 + (int (of_char c) - 48)) else None)"

definition Atoi :: "string \<Rightarrow> int option" where
  "Atoi s =
     (let neg = (s \<noteq> [] \<and> hd s = CHR ''-'');
          ds = (if s \<noteq> [] \<and> (hd s = CHR ''-'' \<or> hd s = CHR ''+'') then tl s else s)
      in if ds = [] then None
         else case digits_loop ds 0 of
                None \<Rightarrow> None
              | Some n \<Rightarrow>
                  (let v = (if neg then - n else n)
                   in if - (2 ^ 63) \<le> v \<and> v < 2 ^ 63 then Some v else None))"

text \<open>
  \<open>UnmarshalJSON\<close> takes the receiver's current value and the bytes; the result is the
  receiver's value afterwards, or the error.  \<open>b[1 : len(b)-1]\<close> panics when \<open>b\<close> has
  fewer than two bytes.
\<close>

definition UnmarshalJSON :: "status \<Rightarrow> string \<Rightarrow> error + status" where
  "UnmarshalJSON s b =
     (if b = ''null'' then Inr s
      else if length b < 2 then Inl (Panic ''slice bounds out of range'')
      else
        (let b' = take (length b - 2) (drop 1 b)
         in case statusValues b' of
              Some v \<Rightarrow> Inr v
            | None \<Rightarrow>
                (case Atoi b' of
                   Some v \<Rightarrow> Inr v
                 | None \<Rightarrow> Inl (Plain (''invalid status: '' @ b')))))"

text \<open>
  \<open>Scan\<close> receives a value of type \<open>any\<close>: nil, a string, a byte slice, or something else
  (kept as its \<open>%v\<close> rendering).
\<close>

datatype scan_src = SrcNil | SrcString string | SrcBytes string | SrcOther string

fun showNat :: "nat \<Rightarrow> string" where
  "showNat n =
     (if n < 10 then [char_of (48 + n)]
      else showNat (n div 10) @ [char_of (48 + n mod 10)])"

declare showNat.simps [simp del]

definition formatBytes :: "string \<Rightarrow> string" where
  "formatBytes bs = formatStrings (map (\<lambda>c. showNat (of_char c)) bs)"

definition Scan :: "status \<Rightarrow> scan_src \<Rightarrow> error + status" where
  "Scan s src =
     (case src of
        SrcNil \<Rightarrow> Inr s
      | SrcString x \<Rightarrow>
          (case statusValues x of
             Some v \<Rightarrow> Inr v
           | None \<Rightarrow> Inl (Plain (''invalid status: '' @ x)))
      | SrcBytes x \<Rightarrow>
          (case statusValues x of
             Some v \<Rightarrow> Inr v
           | None \<Rightarrow> Inl (Plain (''invalid status: '' @ formatBytes x)))
      | SrcOther x \<Rightarrow> Inl (Plain (''invalid status: '' @ x)))"

section \<open>Claims and the request context (claims.go)\<close>

record Claims =
  ID :: string
  Username :: string
  DisplayName :: string

text \<open>
  Only the slot under \<open>claimsKey\<close> of a context matters here: it is absent, or holds a
  \<open>*Claims\<close> (possibly a nil pointer), or holds a value of another type.
\<close>

datatype ctx_value = ClaimsPtr "Claims option" | OtherValue

type_synonym ctx = "ctx_value option"

definition emptyClaims :: Claims where
  "emptyClaims = \<lparr>Claims.ID = [], Claims.Username = [], Claims.DisplayName = []\<rparr>"

definition ClaimsFromContext :: "ctx \<Rightarrow> Claims option" where
  "ClaimsFromContext c =
     (case c of
        Some (ClaimsPtr claims) \<Rightarrow> claims
      | _ \<Rightarrow> Some emptyClaims)"

definition ContextWithClaims :: "ctx \<Rightarrow> Claims option \<Rightarrow> ctx" where
  "ContextWithClaims c claims = Some (ClaimsPtr claims)"

section \<open>Users and the store (service.go, sql.go)\<close>

text \<open>Times are instants in nanoseconds; a \<open>time.Duration\<close> is a count of nanoseconds.\<close>

type_synonym time = int

definition Hour :: int where
  "Hour = 3600000000000"

record User =
  ID :: string
  Username :: string
  DisplayName :: string
  Status :: status
  CreatedAt :: time
  hashedPassword :: string
  createdBy :: string
  updatedBy :: string
  updatedAt :: time

definition IsEnabled :: "User \<Rightarrow> bool" where
  "IsEnabled u = (Status u = StatusEnabled)"

definition toClaims :: "User \<Rightarrow> Claims" where
  "toClaims u =
     \<lparr>Claims.ID = User.ID u,
      Claims.Username = User.Username u,
      Claims.DisplayName = User.DisplayName u\<rparr>"

text \<open>
  The relational store is an external collaborator, reached through the driver.  The
  model keeps what the driver answers: for \<open>QueryRow(...).Scan(...)\<close> by username, the
  scanned user or the error; for \<open>Query\<close> by username, an error, or the rows (each one
  scans to a role or fails) with the error \<open>rows.Err()\<close> reports after the iteration.
  \<open>issued\<close> records, in order, the reads sent to the store.
\<close>

datatype read = UserRead string | RolesRead string

record db =
  QueryRow :: "string \<Rightarrow> error + User"
  Query :: "string \<Rightarrow> error + ((error + Role) list \<times> error option)"
  issued :: "read list"

definition getUserByUsername :: "db \<Rightarrow> string \<Rightarrow> (error + User) \<times> db" where
  "getUserByUsername d username =
     (let d' = d\<lparr>issued := issued d @ [UserRead username]\<rparr>
      in case QueryRow d username of
           Inl err \<Rightarrow>
             if errorsIs err ErrNoRows then (Inl ErrUserNotFound, d') else (Inl err, d')
         | Inr u \<Rightarrow> (Inr u, d'))"

fun rows_loop :: "(error + Role) list \<Rightarrow> Role list \<Rightarrow> error + Role list" where
  "rows_loop [] rs = Inr rs"
| "rows_loop (row # rows) rs =
     (case row of
        Inl err \<Rightarrow> Inl (Wrapped ''failed to scan row'' err)
      | Inr r \<Rightarrow> rows_loop rows (rs @ [r]))"

definition listRolesByUsername :: "db \<Rightarrow> string \<Rightarrow> (error + Role list) \<times> db" where
  "listRolesByUsername d username =
     (let d' = d\<lparr>issued := issued d @ [RolesRead username]\<rparr>
      in case Query d username of
           Inl err \<Rightarrow> (Inl (Wrapped ''failed to execute query'' err), d')
         | Inr (rows, rowsErr) \<Rightarrow>
             (case rows_loop rows [] of
                Inl err \<Rightarrow> (Inl err, d')
              | Inr rs \<Rightarrow>
                  (case rowsErr of
                     Some err \<Rightarrow> (Inl (Wrapped ''failed to iterate rows'' err), d')
                   | None \<Rightarrow> (Inr rs, d'))))"

section \<open>The token library and the password hash, as used by the service\<close>

text \<open>
  A token under construction is its claims (by key) and its footer.  The library keeps
  every claim as JSON: a string (the subject, and each time, which \<open>SetTime\<close> writes as
  its RFC 3339 text) or an object (the embedded claims).  Marshalling either cannot fail,
  so \<open>Set\<close> always answers without an error.  \<open>Get\<close> decodes the value under a key into a
  \<open>Claims\<close> object and fails when the key is absent or holds no object.
\<close>

datatype claim_value = StringValue string | ObjectValue Claims

record paseto_token =
  token_claims :: "string \<rightharpoonup> claim_value"
  token_footer :: string

text \<open>
  What the service takes from outside the repository: the encryption of a token under a
  key, the parser built from the rules \<open>NotExpired\<close> and \<open>ValidAt(now)\<close> (it takes the key,
  the text and that instant), the RFC 3339 text of a whole second of the epoch in the
  process's time zone, and bcrypt's comparison of a stored hash with a password (no error
  when they match).
\<close>

type_synonym key = string

record extern =
  V4Encrypt :: "key \<Rightarrow> paseto_token \<Rightarrow> string"
  ParseV4Local :: "key \<Rightarrow> string \<Rightarrow> time \<Rightarrow> error + paseto_token"
  RFC3339 :: "int \<Rightarrow> string"
  CompareHashAndPassword :: "string \<Rightarrow> string \<Rightarrow> error option"

text \<open>
  \<open>Time.Format(time.RFC3339)\<close>: the layout has no fractional seconds, so the text is that
  of the whole second the instant lies in.
\<close>

definition Format_RFC3339 :: "extern \<Rightarrow> time \<Rightarrow> string" where
  "Format_RFC3339 x t = RFC3339 x (t div 1000000000)"

definition NewToken :: paseto_token where
  "NewToken = \<lparr>token_claims = Map.empty, token_footer = []\<rparr>"

definition tokenSet :: "string \<Rightarrow> claim_value \<Rightarrow> paseto_token \<Rightarrow> error + paseto_token" where
  "tokenSet k v t = Inr (t\<lparr>token_claims := (token_claims t)(k \<mapsto> v)\<rparr>)"

definition SetString :: "string \<Rightarrow> string \<Rightarrow> paseto_token \<Rightarrow> paseto_token" where
  "SetString k v t = t\<lparr>token_claims := (token_claims t)(k \<mapsto> StringValue v)\<rparr>"

definition SetTime :: "extern \<Rightarrow> string \<Rightarrow> time \<Rightarrow> paseto_token \<Rightarrow> paseto_token" where
  "SetTime x k v t = SetString k (Format_RFC3339 x v) t"

definition SetSubject :: "string \<Rightarrow> paseto_token \<Rightarrow> paseto_token" where
  "SetSubject sub t = SetString ''sub'' sub t"

definition SetIssuedAt :: "extern \<Rightarrow> time \<Rightarrow> paseto_token \<Rightarrow> paseto_token" where
  "SetIssuedAt x iat t = SetTime x ''iat'' iat t"

definition SetNotBefore :: "extern \<Rightarrow> time \<Rightarrow> paseto_token \<Rightarrow> paseto_token" where
  "SetNotBefore x nbf t = SetTime x ''nbf'' nbf t"

definition SetExpiration :: "extern \<Rightarrow> time \<Rightarrow> paseto_token \<Rightarrow> paseto_token" where
  "SetExpiration x exp t = SetTime x ''exp'' exp t"

definition SetFooter :: "string \<Rightarrow> paseto_token \<Rightarrow> paseto_token" where
  "SetFooter f t = t\<lparr>token_footer := f\<rparr>"

definition tokenGet :: "string \<Rightarrow> paseto_token \<Rightarrow> error + Claims" where
  "tokenGet k t =
     (case token_claims t k of
        None \<Rightarrow> Inl (Plain ''value for key not present in claims'')
      | Some (ObjectValue c) \<Rightarrow> Inr c
      | Some _ \<Rightarrow> Inl (Plain ''cannot unmarshal into Claims''))"

definition ComparePassword :: "extern \<Rightarrow> User \<Rightarrow> string \<Rightarrow> bool" where
  "ComparePassword x u password =
     (CompareHashAndPassword x (hashedPassword u) password = None)"

section \<open>The service (service.go, roles.go)\<close>

text \<open>
  The service holds the store and the two keys (its logger has no part in what it
  returns).  Every method returns its result together with the service, whose store
  has the reads of the call added.
\<close>

record Auth =
  db :: db
  aKey :: key
  rKey :: key

record Token =
  Access :: string
  Refresh :: string

record LoginReq =
  Username :: string
  Password :: string

record NewTokenReq =
  Token :: string

definition credentialsMessage :: string where
  "credentialsMessage =
     ''Your credentials not valid. Please check your username and password and try again.''"

definition tokenMessage :: string where
  "tokenMessage = ''Your credentials not valid. Please check your token and try again.''"

definition incompleteMessage :: string where
  "incompleteMessage =
     ''Credentials are not valid or incomplete. Please check the errors and try again, see details for more information.''"

definition Validate :: "LoginReq \<Rightarrow> error option" where
  "Validate r =
     (let violations = [];
          violations =
            (if LoginReq.Username r = []
             then violations @ [(''username'', ''Username must not be empty'')]
             else violations);
          violations =
            (if Password r = []
             then violations @ [(''password'', ''Password must not be empty'')]
             else violations)
      in if length violations > 0
         then Some (StatusErr InvalidArgument incompleteMessage violations)
         else None)"

text \<open>\<open>genToken\<close>, with the instant \<open>time.Now()\<close> returns as the argument \<open>now\<close>.\<close>

definition genToken :: "extern \<Rightarrow> Auth \<Rightarrow> time \<Rightarrow> User \<Rightarrow> error + Token" where
  "genToken x s now u =
     (let t = NewToken;
          t = SetSubject (User.Username u) t;
          t = SetIssuedAt x now t;
          t = SetNotBefore x now t;
          t = SetExpiration x (now + Hour) t;
          t = SetFooter (Format_RFC3339 x now) t
      in case tokenSet ''profile'' (ObjectValue (toClaims u)) t of
           Inl err \<Rightarrow> Inl (Wrapped ''failed to set claims'' err)
         | Inr t \<Rightarrow>
             (let accessToken = V4Encrypt x (aKey s) t;
                  t = SetExpiration x (now + Hour * 24 * 7) t;
                  refreshToken = V4Encrypt x (rKey s) t
              in Inr \<lparr>Access = accessToken, Refresh = refreshToken\<rparr>))"

definition Login :: "extern \<Rightarrow> Auth \<Rightarrow> time \<Rightarrow> LoginReq \<Rightarrow> (error + Token) \<times> Auth" where
  "Login x s now req =
     (case Validate req of
        Some err \<Rightarrow> (Inl err, s)
      | None \<Rightarrow>
          (case getUserByUsername (db s) (LoginReq.Username req) of
             (Inl err, d) \<Rightarrow>
               if errorsIs err ErrUserNotFound
               then (Inl (StatusErr Unauthenticated credentialsMessage []), s\<lparr>db := d\<rparr>)
               else (Inl err, s\<lparr>db := d\<rparr>)
           | (Inr user, d) \<Rightarrow>
               if \<not> ComparePassword x user (Password req)
               then (Inl (StatusErr Unauthenticated credentialsMessage []), s\<lparr>db := d\<rparr>)
               else if \<not> IsEnabled user
               then (Inl (StatusErr Unauthenticated tokenMessage []), s\<lparr>db := d\<rparr>)
               else
                 (case genToken x s now user of
                    Inl err \<Rightarrow> (Inl err, s\<lparr>db := d\<rparr>)
                  | Inr tok \<Rightarrow> (Inr tok, s\<lparr>db := d\<rparr>))))"

text \<open>
  \<open>RefreshToken\<close>: \<open>now\<close> is the instant given to the rule \<open>ValidAt\<close>, \<open>now'\<close> the one
  \<open>genToken\<close> reads afterwards.
\<close>

definition RefreshToken ::
  "extern \<Rightarrow> Auth \<Rightarrow> time \<Rightarrow> time \<Rightarrow> NewTokenReq \<Rightarrow> (error + Token) \<times> Auth" where
  "RefreshToken x s now now' req =
     (if Token req = [] then (Inl (StatusErr Unauthenticated tokenMessage []), s)
      else
        (case ParseV4Local x (rKey s) (Token req) now of
           Inl err \<Rightarrow> (Inl (StatusErr Unauthenticated tokenMessage []), s)
         | Inr t \<Rightarrow>
             (case tokenGet ''profile'' t of
                Inl err \<Rightarrow> (Inl (StatusErr Unauthenticated tokenMessage []), s)
              | Inr cl \<Rightarrow>
                  (case getUserByUsername (db s) (Claims.Username cl) of
                     (Inl err, d) \<Rightarrow>
                       if errorsIs err ErrUserNotFound
                       then (Inl (StatusErr Unauthenticated tokenMessage []), s\<lparr>db := d\<rparr>)
                       else (Inl err, s\<lparr>db := d\<rparr>)
                   | (Inr user, d) \<Rightarrow>
                       if \<not> IsEnabled user
                       then (Inl (StatusErr Unauthenticated tokenMessage []), s\<lparr>db := d\<rparr>)
                       else
                         (case genToken x s now' user of
                            Inl err \<Rightarrow> (Inl err, s\<lparr>db := d\<rparr>)
                          | Inr tok \<Rightarrow> (Inr tok, s\<lparr>db := d\<rparr>))))))"

text \<open>
  \<open>CanI\<close> returns only an error (or nil).  Reading \<open>claims.Username\<close> through a nil
  pointer panics.
\<close>

definition CanI :: "Auth \<Rightarrow> ctx \<Rightarrow> string list \<Rightarrow> error option \<times> Auth" where
  "CanI s c permissions =
     (if length permissions = 0 then (Some (Plain ''no permissions specified''), s)
      else
        (case ClaimsFromContext c of
           None \<Rightarrow> (Some (Panic ''nil pointer dereference''), s)
         | Some cl \<Rightarrow>
             (case listRolesByUsername (db s) (Claims.Username cl) of
                (Inl err, d) \<Rightarrow> (Some err, s\<lparr>db := d\<rparr>)
              | (Inr roles, d) \<Rightarrow>
                  (let missed = checkMissingPermissions permissions (roleToPermissions roles)
                   in if length missed > 0
                      then (Some (StatusErr PermissionDenied (deniedMessage missed) []),
                            s\<lparr>db := d\<rparr>)
                      else (None, s\<lparr>db := d\<rparr>)))))"

section \<open>Sample data\<close>

text \<open>
  A small store for the concrete instances below: \<open>alice\<close> is enabled and holds the roles
  A and B, \<open>bob\<close> is disabled, nobody else exists and nobody else has a role.
\<close>

definition roleA :: Role where
  "roleA = \<lparr>Role.ID = 1, Name = ''A'', Role.DisplayName = ''Role A'', Permissions = [''x:read'']\<rparr>"

definition roleB :: Role where
  "roleB = \<lparr>Role.ID = 2, Name = ''B'', Role.DisplayName = ''Role B'',
     Permissions = [''x:read'', ''x:write'']\<rparr>"

definition alice :: User where
  "alice = \<lparr>User.ID = ''u1'', User.Username = ''alice'', User.DisplayName = ''Alice'',
     Status = StatusEnabled, CreatedAt = 0, hashedPassword = ''hash(wonderland)'',
     createdBy = ''root'', updatedBy = ''root'', updatedAt = 0\<rparr>"

definition bob :: User where
  "bob = \<lparr>User.ID = ''u2'', User.Username = ''bob'', User.DisplayName = ''Bob'',
     Status = StatusDisabled, CreatedAt = 0, hashedPassword = ''hash(builder)'',
     createdBy = ''root'', updatedBy = ''root'', updatedAt = 0\<rparr>"

definition sampleStore :: db where
  "sampleStore =
     \<lparr>QueryRow = (\<lambda>u. if u = ''alice'' then Inr alice
                     else if u = ''bob'' then Inr bob else Inl ErrNoRows),
      Query = (\<lambda>u. if u = ''alice'' then Inr ([Inr roleA, Inr roleB], None)
                  else Inr ([], None)),
      issued = []\<rparr>"

definition sampleAuth :: Auth where
  "sampleAuth = \<lparr>db = sampleStore, aKey = ''access-key'', rKey = ''refresh-key''\<rparr>"

definition aliceCtx :: ctx where
  "aliceCtx = ContextWithClaims None (Some (toClaims alice))"

definition carolCtx :: ctx where
  "carolCtx = ContextWithClaims None
     (Some \<lparr>Claims.ID = ''u3'', Claims.Username = ''carol'', Claims.DisplayName = ''Carol''\<rparr>)"

text \<open>
  Two more services: one whose store holds the role B for the empty username, and one
  whose store fails every read.
\<close>

definition ghostAuth :: Auth where
  "ghostAuth =
     \<lparr>db = \<lparr>QueryRow = (\<lambda>u. Inl ErrNoRows),
             Query = (\<lambda>u. if u = [] then Inr ([Inr roleB], None) else Inr ([], None)),
             issued = []\<rparr>,
      aKey = ''access-key'', rKey = ''refresh-key''\<rparr>"

definition failingAuth :: Auth where
  "failingAuth =
     \<lparr>db = \<lparr>QueryRow = (\<lambda>u. Inl (DriverErr ''connection refused'')),
             Query = (\<lambda>u. Inl (DriverErr ''connection refused'')),
             issued = []\<rparr>,
      aKey = ''access-key'', rKey = ''refresh-key''\<rparr>"

text \<open>
  Stand-ins for the libraries: the encryption shows the key and the expiration it was
  given, the parser knows two refresh tokens (one naming \<open>bob\<close>, one naming \<open>dave\<close>, who
  is not in the store), three seconds of the epoch have their text, and a hash matches
  the password it is written around.
\<close>

definition sampleExtern :: extern where
  "sampleExtern =
     \<lparr>V4Encrypt = (\<lambda>k t. k @ '':'' @
         (case token_claims t ''exp'' of Some (StringValue e) \<Rightarrow> e | _ \<Rightarrow> [])),
      ParseV4Local = (\<lambda>k text now.
         if text = ''refresh-key:bob''
         then Inr \<lparr>token_claims = [''profile'' \<mapsto> ObjectValue (toClaims bob)],
                   token_footer = []\<rparr>
         else if text = ''refresh-key:dave''
         then Inr \<lparr>token_claims = [''profile'' \<mapsto> ObjectValue
                     \<lparr>Claims.ID = ''u4'', Claims.Username = ''dave'',
                      Claims.DisplayName = ''Dave''\<rparr>],
                   token_footer = []\<rparr>
         else Inl (Plain ''bad token'')),
      RFC3339 = (\<lambda>n. if n = 0 then ''1970-01-01T00:00:00Z''
                    else if n = 3600 then ''1970-01-01T01:00:00Z''
                    else if n = 604800 then ''1970-01-08T00:00:00Z'' else ''later''),
      CompareHashAndPassword = (\<lambda>h p.
         if h = ''hash('' @ p @ '')'' then None else Some (Plain ''mismatch''))\<rparr>"

lemmas sample_defs = roleA_def roleB_def alice_def bob_def sampleStore_def sampleAuth_def
  aliceCtx_def carolCtx_def ContextWithClaims_def toClaims_def ClaimsFromContext_def
  listRolesByUsername_def getUserByUsername_def

lemmas service_defs = sampleExtern_def ghostAuth_def failingAuth_def Login_def
  RefreshToken_def Validate_def ComparePassword_def IsEnabled_def tokenGet_def
  StatusEnabled_def StatusDisabled_def credentialsMessage_def tokenMessage_def

section \<open>The two loops of the access decision\<close>

lemma missing_loop_filter:
  "missing_loop wanted m acc = acc @ filter (\<lambda>p. m p = None) wanted"
  by (induction wanted arbitrary: acc) simp_all

lemma havingSet_loop_lookup:
  "havingSet_loop ps m p = (if p \<in> set ps then Some () else m p)"
  by (induction ps arbitrary: m) auto

lemma havingSet_lookup: "havingSet having p = (if p \<in> set having then Some () else None)"
  by (simp add: havingSet_def havingSet_loop_lookup)

lemma checkMissingPermissions_filter:
  "checkMissingPermissions wanted having = filter (\<lambda>p. p \<notin> set having) wanted"
  by (simp add: checkMissingPermissions_def missing_loop_filter havingSet_lookup)

lemma checkMissing_nothing_had: "checkMissingPermissions wanted [] = wanted"
  by (simp add: checkMissingPermissions_filter)

lemma roleToPermissions_loop_concat:
  "roleToPermissions_loop rs ps = ps @ concat (map Permissions rs)"
  by (induction rs arbitrary: ps) simp_all

lemma roleToPermissions_concat: "roleToPermissions rs = concat (map Permissions rs)"
  by (simp add: roleToPermissions_def roleToPermissions_loop_concat)

text \<open>
  Once the want list is not empty, the context yields claims and the store has answered
  with roles, \<open>CanI\<close> is decided by the missing list alone.
\<close>

lemma CanI_resolved:
  assumes "permissions \<noteq> []"
    and "ClaimsFromContext c = Some cl"
    and "listRolesByUsername (db s) (Claims.Username cl) = (Inr roles, d)"
  shows "CanI s c permissions =
     (let missed = checkMissingPermissions permissions (roleToPermissions roles)
      in if missed = [] then (None, s\<lparr>db := d\<rparr>)
         else (Some (StatusErr PermissionDenied (deniedMessage missed) []), s\<lparr>db := d\<rparr>))"
  using assms by (simp add: CanI_def Let_def)

lemma listRoles_no_rows:
  assumes "Query d username = Inr ([], None)"
  shows "listRolesByUsername d username
           = (Inr [], d\<lparr>issued := issued d @ [RolesRead username]\<rparr>)"
  using assms by (simp add: listRolesByUsername_def)

lemma rows_loop_error_wrapped:
  "rows_loop rows rs = Inl e \<Longrightarrow> \<exists>m e'. e = Wrapped m e'"
  by (induction rows arbitrary: rs) (auto split: sum.splits)

lemma listRoles_error_wrapped:
  assumes "fst (listRolesByUsername d u) = Inl e"
  shows "\<exists>m e'. e = Wrapped m e'"
  using assms
  by (auto simp: listRolesByUsername_def Let_def
      split: sum.splits prod.splits option.splits dest: rows_loop_error_wrapped)

lemma CanI_never_Unauthenticated:
  "fst (CanI s c permissions) \<noteq> Some (StatusErr Unauthenticated m v)"
proof (cases "permissions = []")
  case True
  then show ?thesis by (simp add: CanI_def)
next
  case False
  show ?thesis
  proof (cases "ClaimsFromContext c")
    case None
    with False show ?thesis by (simp add: CanI_def)
  next
    case (Some cl)
    obtain r d where r: "listRolesByUsername (db s) (Claims.Username cl) = (r, d)"
      by (cases "listRolesByUsername (db s) (Claims.Username cl)")
    show ?thesis
    proof (cases r)
      case (Inl e)
      with r have "fst (listRolesByUsername (db s) (Claims.Username cl)) = Inl e"
        by simp
      then obtain m' e' where "e = Wrapped m' e'"
        using listRoles_error_wrapped by blast
      with False Some r Inl show ?thesis by (simp add: CanI_def)
    next
      case (Inr roles)
      with False Some r show ?thesis by (simp add: CanI_def Let_def)
    qed
  qed
qed

section \<open>Resolving a principal's roles\<close>

lemma rows_loop_all_scanned: "rows_loop (map Inr rs) acc = Inr (acc @ rs)"
  by (induction rs arbitrary: acc) simp_all

lemma listRoles_rows:
  assumes "Query d username = Inr (map Inr rs, None)"
  shows "listRolesByUsername d username
           = (Inr rs, d\<lparr>issued := issued d @ [RolesRead username]\<rparr>)"
  using assms by (simp add: listRolesByUsername_def rows_loop_all_scanned)

lemma havingSet_dom: "dom (havingSet hs) = set hs"
  by (auto simp: havingSet_lookup dom_def)

lemma effective_set: "set (roleToPermissions rs) = (\<Union>r \<in> set rs. set (Permissions r))"
  by (simp add: roleToPermissions_concat)

lemma no_claims_empty:
  assumes "\<forall>p. c \<noteq> Some (ClaimsPtr p)"
  shows "ClaimsFromContext c = Some emptyClaims"
  using assms by (auto simp: ClaimsFromContext_def split: option.splits ctx_value.splits)

section \<open>Looking up the principal at login and refresh\<close>

lemma getUser_found:
  "QueryRow d username = Inr u \<Longrightarrow>
     getUserByUsername d username = (Inr u, d\<lparr>issued := issued d @ [UserRead username]\<rparr>)"
  by (simp add: getUserByUsername_def)

lemma getUser_no_rows:
  "QueryRow d username = Inl e \<Longrightarrow> errorsIs e ErrNoRows \<Longrightarrow>
     getUserByUsername d username
       = (Inl ErrUserNotFound, d\<lparr>issued := issued d @ [UserRead username]\<rparr>)"
  by (simp add: getUserByUsername_def)

lemma seconds_shift: "(now + k * 1000000000) div 1000000000 = now div 1000000000 + (k::int)"
  by simp

lemma genToken_value:
  "genToken x s now u =
     Inr \<lparr>Access = V4Encrypt x (aKey s)
            \<lparr>token_claims =
               [''sub'' \<mapsto> StringValue (User.Username u),
                ''iat'' \<mapsto> StringValue (RFC3339 x (now div 1000000000)),
                ''nbf'' \<mapsto> StringValue (RFC3339 x (now div 1000000000)),
                ''exp'' \<mapsto> StringValue (RFC3339 x (now div 1000000000 + 3600)),
                ''profile'' \<mapsto> ObjectValue (toClaims u)],
             token_footer = RFC3339 x (now div 1000000000)\<rparr>,
          Refresh = V4Encrypt x (rKey s)
            \<lparr>token_claims =
               [''sub'' \<mapsto> StringValue (User.Username u),
                ''iat'' \<mapsto> StringValue (RFC3339 x (now div 1000000000)),
                ''nbf'' \<mapsto> StringValue (RFC3339 x (now div 1000000000)),
                ''exp'' \<mapsto> StringValue (RFC3339 x (now div 1000000000 + 3600)),
                ''profile'' \<mapsto> ObjectValue (toClaims u),
                ''exp'' \<mapsto> StringValue (RFC3339 x (now div 1000000000 + 604800))],
             token_footer = RFC3339 x (now div 1000000000)\<rparr>\<rparr>"
proof -
  have a: "(now + Hour) div 1000000000 = now div 1000000000 + 3600"
    using seconds_shift [of now 3600] by (simp add: Hour_def)
  have b: "(now + Hour * 24 * 7) div 1000000000 = now div 1000000000 + 604800"
    using seconds_shift [of now 604800] by (simp add: Hour_def)
  have c: "(now + 168 * Hour) div 1000000000 = now div 1000000000 + 604800"
    using b by simp
  show ?thesis
    by (simp add: genToken_def Let_def NewToken_def SetSubject_def SetIssuedAt_def
        SetNotBefore_def SetExpiration_def SetTime_def SetString_def SetFooter_def
        tokenSet_def Format_RFC3339_def a c)
qed

lemma genToken_succeeds: "\<exists>tok. genToken x s now u = Inr tok"
  by (simp add: genToken_value)

lemma Login_found:
  assumes "Validate req = None"
    and "QueryRow (db s) (LoginReq.Username req) = Inr u"
  shows "fst (Login x s now req) =
     (if \<not> ComparePassword x u (Password req)
      then Inl (StatusErr Unauthenticated credentialsMessage [])
      else if \<not> IsEnabled u then Inl (StatusErr Unauthenticated tokenMessage [])
      else genToken x s now u)"
proof -
  obtain tok where "genToken x s now u = Inr tok"
    using genToken_succeeds by blast
  with assms show ?thesis
    by (simp add: Login_def getUser_found)
qed

lemma Refresh_found:
  assumes "Token req \<noteq> []"
    and "ParseV4Local x (rKey s) (Token req) now = Inr t"
    and "tokenGet ''profile'' t = Inr cl"
    and "QueryRow (db s) (Claims.Username cl) = Inr u"
  shows "fst (RefreshToken x s now now' req) =
     (if \<not> IsEnabled u then Inl (StatusErr Unauthenticated tokenMessage [])
      else genToken x s now' u)"
proof -
  obtain tok where "genToken x s now' u = Inr tok"
    using genToken_succeeds by blast
  with assms show ?thesis
    by (simp add: RefreshToken_def getUser_found)
qed

lemma Login_success:
  assumes "fst (Login x s now req) = Inr tok"
  shows "\<exists>u. QueryRow (db s) (LoginReq.Username req) = Inr u \<and> Status u = StatusEnabled"
proof (cases "QueryRow (db s) (LoginReq.Username req)")
  case (Inl e)
  with assms show ?thesis
    by (simp add: Login_def getUserByUsername_def Let_def split: option.splits if_splits)
next
  case (Inr u)
  with assms show ?thesis
    by (simp add: Login_def getUser_found IsEnabled_def split: option.splits if_splits)
qed

lemma Refresh_success:
  assumes "fst (RefreshToken x s now now' req) = Inr tok"
  shows "\<exists>t cl u. ParseV4Local x (rKey s) (Token req) now = Inr t
           \<and> tokenGet ''profile'' t = Inr cl
           \<and> QueryRow (db s) (Claims.Username cl) = Inr u \<and> Status u = StatusEnabled"
proof -
  from assms have ne: "Token req \<noteq> []"
    by (auto simp: RefreshToken_def)
  from assms ne obtain t where t: "ParseV4Local x (rKey s) (Token req) now = Inr t"
    by (cases "ParseV4Local x (rKey s) (Token req) now") (simp_all add: RefreshToken_def)
  from assms ne t obtain cl where cl: "tokenGet ''profile'' t = Inr cl"
    by (cases "tokenGet ''profile'' t") (simp_all add: RefreshToken_def)
  show ?thesis
  proof (cases "QueryRow (db s) (Claims.Username cl)")
    case (Inl e)
    with assms ne t cl show ?thesis
      by (simp add: RefreshToken_def getUserByUsername_def Let_def split: if_splits)
  next
    case (Inr u)
    with assms ne t cl have "Status u = StatusEnabled"
      by (simp add: RefreshToken_def getUser_found IsEnabled_def split: if_splits)
    with t cl Inr show ?thesis by blast
  qed
qed

lemma Login_not_found:
  assumes "Validate req = None"
    and "QueryRow (db s) (LoginReq.Username req) = Inl e"
    and "errorsIs e ErrNoRows"
  shows "fst (Login x s now req) = Inl (StatusErr Unauthenticated credentialsMessage [])"
  using assms by (simp add: Login_def getUser_no_rows)

lemma Refresh_not_found:
  assumes "Token req \<noteq> []"
    and "ParseV4Local x (rKey s) (Token req) now = Inr t"
    and "tokenGet ''profile'' t = Inr cl"
    and "QueryRow (db s) (Claims.Username cl) = Inl e"
    and "errorsIs e ErrNoRows"
  shows "fst (RefreshToken x s now now' req)
           = Inl (StatusErr Unauthenticated tokenMessage [])"
  using assms by (simp add: RefreshToken_def getUser_no_rows)

lemma Validate_error: "Validate req = Some e \<Longrightarrow> \<exists>m v. e = StatusErr InvalidArgument m v"
  by (auto simp: Validate_def Let_def split: if_splits)

lemma Login_error_not_NotFound:
  assumes "fst (Login x s now req) = Inl e"
  shows "\<not> errorsIs e ErrUserNotFound"
proof (cases "Validate req")
  case (Some v)
  with assms Validate_error [OF Some] show ?thesis
    by (auto simp: Login_def)
next
  case None
  obtain r d where r: "getUserByUsername (db s) (LoginReq.Username req) = (r, d)"
    by (cases "getUserByUsername (db s) (LoginReq.Username req)")
  show ?thesis
  proof (cases r)
    case (Inl err)
    with assms None r show ?thesis
      by (auto simp: Login_def split: if_splits)
  next
    case (Inr u)
    with assms None r show ?thesis
      by (auto simp: Login_def genToken_value split: if_splits)
  qed
qed

lemma Refresh_error_not_NotFound:
  assumes "fst (RefreshToken x s now now' req) = Inl e"
  shows "\<not> errorsIs e ErrUserNotFound"
proof (cases "Token req = []")
  case True
  with assms show ?thesis by (auto simp: RefreshToken_def)
next
  case ne: False
  show ?thesis
  proof (cases "ParseV4Local x (rKey s) (Token req) now")
    case (Inl a)
    with assms ne show ?thesis by (auto simp: RefreshToken_def)
  next
    case t: (Inr t)
    show ?thesis
    proof (cases "tokenGet ''profile'' t")
      case (Inl a)
      with assms ne t show ?thesis by (auto simp: RefreshToken_def)
    next
      case cl: (Inr cl)
      obtain r d where r: "getUserByUsername (db s) (Claims.Username cl) = (r, d)"
        by (cases "getUserByUsername (db s) (Claims.Username cl)")
      show ?thesis
      proof (cases r)
        case (Inl err)
        with assms ne t cl r show ?thesis
          by (auto simp: RefreshToken_def split: if_splits)
      next
        case (Inr u)
        with assms ne t cl r show ?thesis
          by (auto simp: RefreshToken_def genToken_value split: if_splits)
      qed
    qed
  qed
qed

section \<open>Numerals\<close>

lemma digits_loop_non_digit:
  "c \<in> set ds \<Longrightarrow> \<not> isDigit c \<Longrightarrow> digits_loop ds n = None"
  by (induction ds arbitrary: n) auto

lemma Atoi_non_numeral:
  assumes "c \<in> set s" and "\<not> isDigit c" and "c \<noteq> CHR ''-''" and "c \<noteq> CHR ''+''"
  shows "Atoi s = None"
proof (cases s)
  case Nil
  with assms show ?thesis by simp
next
  case (Cons a as)
  show ?thesis
  proof (cases "a = CHR ''-'' \<or> a = CHR ''+''")
    case True
    with assms Cons have "c \<in> set as" by auto
    then have "digits_loop as 0 = None"
      using assms(2) by (rule digits_loop_non_digit)
    with True Cons show ?thesis
      by (simp add: Atoi_def Let_def)
  next
    case False
    from assms Cons have "digits_loop (a # as) 0 = None"
      using digits_loop_non_digit by blast
    with False Cons show ?thesis
      by (simp add: Atoi_def Let_def del: digits_loop.simps)
  qed
qed

section \<open>The access decision\<close>

text \<open>
  Claim C1.  \<open>checkMissingPermissions\<close> (the spec's \<open>checkPermissions\<close>, with the want
  list as its first argument) returns exactly the entries of the want list that do not
  occur in the have list, in the order of the want list.  For a non-empty want list
  whose roles the store has returned, \<open>CanI\<close> returns no error if and only if that
  missing list is empty.  With have \<open>["x:read"]\<close> and want \<open>["x:read", "x:write"]\<close> the
  missing list is \<open>["x:write"]\<close>; with have \<open>["x:read", "x:write"]\<close> and want
  \<open>["x:read"]\<close> it is empty.
\<close>

theorem checkMissingPermissions_decision:
  "checkMissingPermissions want have = filter (\<lambda>p. p \<notin> set have) want
   \<and> (want \<noteq> [] \<and> ClaimsFromContext c = Some cl
        \<and> listRolesByUsername (db s) (Claims.Username cl) = (Inr roles, d)
      \<longrightarrow> (fst (CanI s c want) = None)
            = (checkMissingPermissions want (roleToPermissions roles) = []))
   \<and> checkMissingPermissions [''x:read'', ''x:write''] [''x:read''] = [''x:write'']
   \<and> checkMissingPermissions [''x:read''] [''x:read'', ''x:write''] = []"
proof (intro conjI impI)
  show "checkMissingPermissions want have = filter (\<lambda>p. p \<notin> set have) want"
    by (rule checkMissingPermissions_filter)
next
  assume h: "want \<noteq> [] \<and> ClaimsFromContext c = Some cl
        \<and> listRolesByUsername (db s) (Claims.Username cl) = (Inr roles, d)"
  then have h1: "want \<noteq> []" and h2: "ClaimsFromContext c = Some cl"
    and h3: "listRolesByUsername (db s) (Claims.Username cl) = (Inr roles, d)"
    by blast+
  from CanI_resolved [OF h1 h2 h3] show "(fst (CanI s c want) = None)
            = (checkMissingPermissions want (roleToPermissions roles) = [])"
    by (simp add: Let_def)
next
  show "checkMissingPermissions [''x:read'', ''x:write''] [''x:read''] = [''x:write'']"
    by (simp add: checkMissingPermissions_filter)
next
  show "checkMissingPermissions [''x:read''] [''x:read'', ''x:write''] = []"
    by (simp add: checkMissingPermissions_filter)
qed

theorem checkMissingPermissions_decision_witness:
  "fst (CanI sampleAuth aliceCtx [''x:read'']) = None
   \<and> checkMissingPermissions [''x:read''] (roleToPermissions [roleA, roleB]) = []"
  using checkMissingPermissions_decision
    [of "[''x:read'']" "[]" aliceCtx "toClaims alice" sampleAuth "[roleA, roleB]"
      "sampleStore\<lparr>issued := [RolesRead ''alice'']\<rparr>"]
  by (simp add: sample_defs checkMissingPermissions_filter roleToPermissions_concat)

text \<open>
  Claim C4.  For a principal whose role rows the store returns, \<open>listRolesByUsername\<close>
  yields exactly those roles, and the permission set the decision works with (the keys
  of \<open>havingSet\<close>, built from what \<open>roleToPermissions\<close> collects) is the union of their
  permission sets: the missing list is the want list without the members of that union,
  and \<open>CanI\<close> grants a non-empty want list exactly when it lies inside the union.  A name
  that occurs in several roles is one element of the set: for \<open>alice\<close>, with the roles A
  \<open>["x:read"]\<close> and B \<open>["x:read", "x:write"]\<close>, it is the two-element set of \<open>x:read\<close>
  and \<open>x:write\<close>.
\<close>

theorem effective_permissions_union:
  "(Query d username = Inr (map Inr rs, None) \<longrightarrow>
      fst (listRolesByUsername d username) = Inr rs
      \<and> dom (havingSet (roleToPermissions rs)) = (\<Union>r \<in> set rs. set (Permissions r))
      \<and> checkMissingPermissions want (roleToPermissions rs)
          = filter (\<lambda>p. p \<notin> (\<Union>r \<in> set rs. set (Permissions r))) want)
   \<and> (want \<noteq> [] \<and> ClaimsFromContext c = Some cl
        \<and> Query (db s) (Claims.Username cl) = Inr (map Inr rs, None) \<longrightarrow>
      (fst (CanI s c want) = None) = (set want \<subseteq> (\<Union>r \<in> set rs. set (Permissions r))))
   \<and> fst (listRolesByUsername sampleStore ''alice'') = Inr [roleA, roleB]
   \<and> dom (havingSet (roleToPermissions [roleA, roleB])) = {''x:read'', ''x:write''}
   \<and> card (dom (havingSet (roleToPermissions [roleA, roleB]))) = 2"
proof (intro conjI impI)
  assume q: "Query d username = Inr (map Inr rs, None)"
  show "fst (listRolesByUsername d username) = Inr rs"
    by (simp add: listRoles_rows [OF q])
next
  show "dom (havingSet (roleToPermissions rs)) = (\<Union>r \<in> set rs. set (Permissions r))"
    by (simp only: havingSet_dom effective_set)
next
  show "checkMissingPermissions want (roleToPermissions rs)
          = filter (\<lambda>p. p \<notin> (\<Union>r \<in> set rs. set (Permissions r))) want"
    by (simp only: checkMissingPermissions_filter effective_set)
next
  assume h: "want \<noteq> [] \<and> ClaimsFromContext c = Some cl
        \<and> Query (db s) (Claims.Username cl) = Inr (map Inr rs, None)"
  then have h1: "want \<noteq> []" and h2: "ClaimsFromContext c = Some cl"
    and h3: "Query (db s) (Claims.Username cl) = Inr (map Inr rs, None)"
    by blast+
  have "(filter (\<lambda>p. p \<notin> set (roleToPermissions rs)) want = [])
          = (set want \<subseteq> set (roleToPermissions rs))"
    by (auto simp: filter_empty_conv)
  with CanI_resolved [OF h1 h2 listRoles_rows [OF h3]]
  show "(fst (CanI s c want) = None) = (set want \<subseteq> (\<Union>r \<in> set rs. set (Permissions r)))"
    by (simp add: Let_def checkMissingPermissions_filter effective_set)
next
  show "fst (listRolesByUsername sampleStore ''alice'') = Inr [roleA, roleB]"
    by (simp add: sampleStore_def listRolesByUsername_def)
next
  have e: "dom (havingSet (roleToPermissions [roleA, roleB])) = {''x:read'', ''x:write''}"
    by (auto simp: havingSet_dom roleToPermissions_concat roleA_def roleB_def)
  then show "dom (havingSet (roleToPermissions [roleA, roleB])) = {''x:read'', ''x:write''}" .
  from e show "card (dom (havingSet (roleToPermissions [roleA, roleB]))) = 2"
    by simp
qed

theorem effective_permissions_union_witness:
  "fst (listRolesByUsername sampleStore ''alice'') = Inr [roleA, roleB]
   \<and> checkMissingPermissions [''x:write'', ''x:delete'', ''x:read''] (roleToPermissions [roleA, roleB])
       = [''x:delete'']
   \<and> fst (CanI sampleAuth aliceCtx [''x:write'', ''x:read'']) = None
   \<and> fst (CanI sampleAuth aliceCtx [''x:write'', ''x:delete'', ''x:read''])
       = Some (StatusErr PermissionDenied
           ''You do not have sufficient permissions. Required [x:delete] to perform this action'' [])"
  using effective_permissions_union [of sampleStore "''alice''" "[roleA, roleB]"
      "[''x:write'', ''x:delete'', ''x:read'']" aliceCtx "toClaims alice" sampleAuth]
    effective_permissions_union [of sampleStore "''alice''" "[roleA, roleB]"
      "[''x:write'', ''x:read'']" aliceCtx "toClaims alice" sampleAuth]
  by (simp add: sample_defs CanI_def checkMissingPermissions_filter roleToPermissions_concat
      deniedMessage_def formatStrings_def)

text \<open>
  Claim C5.  \<open>CanI\<close> with an empty list of permission names returns the error
  \<open>no permissions specified\<close>, and nothing has been read from the store: the service
  comes back as it was given.
\<close>

theorem CanI_empty_want_rejected:
  "CanI s c [] = (Some (Plain ''no permissions specified''), s)
   \<and> issued (db (snd (CanI s c []))) = issued (db s)"
  by (simp add: CanI_def)

text \<open>
  Claim C7.  When the store has no role row for a username, \<open>listRolesByUsername\<close>
  returns the empty list without an error, so the permission set is empty; and \<open>CanI\<close>
  with a non-empty list of permission names then fails with \<open>PermissionDenied\<close>, every
  requested name being listed as missing.
\<close>

theorem no_roles_denied:
  "(Query d username = Inr ([], None) \<longrightarrow>
      fst (listRolesByUsername d username) = Inr []
      \<and> roleToPermissions [] = []
      \<and> dom (havingSet (roleToPermissions [])) = {})
   \<and> (permissions \<noteq> [] \<and> ClaimsFromContext c = Some cl
        \<and> Query (db s) (Claims.Username cl) = Inr ([], None) \<longrightarrow>
      fst (CanI s c permissions)
        = Some (StatusErr PermissionDenied (deniedMessage permissions) [])
      \<and> checkMissingPermissions permissions (roleToPermissions []) = permissions)"
proof (intro conjI impI)
  assume q: "Query d username = Inr ([], None)"
  show "fst (listRolesByUsername d username) = Inr []"
    by (simp add: listRoles_no_rows [OF q])
next
  show "roleToPermissions [] = []"
    by (simp add: roleToPermissions_def)
next
  show "dom (havingSet (roleToPermissions [])) = {}"
    by (simp add: roleToPermissions_def havingSet_def)
next
  assume h: "permissions \<noteq> [] \<and> ClaimsFromContext c = Some cl
        \<and> Query (db s) (Claims.Username cl) = Inr ([], None)"
  then have h1: "permissions \<noteq> []" and h2: "ClaimsFromContext c = Some cl"
    and h3: "Query (db s) (Claims.Username cl) = Inr ([], None)"
    by blast+
  have none: "roleToPermissions [] = []"
    by (simp add: roleToPermissions_def)
  from CanI_resolved [OF h1 h2 listRoles_no_rows [OF h3]] h1
  show "fst (CanI s c permissions)
        = Some (StatusErr PermissionDenied (deniedMessage permissions) [])"
    by (simp add: none checkMissing_nothing_had)
next
  show "checkMissingPermissions permissions (roleToPermissions []) = permissions"
    by (simp add: roleToPermissions_def checkMissing_nothing_had)
qed

theorem no_roles_denied_witness:
  "fst (listRolesByUsername sampleStore ''carol'') = Inr []
   \<and> fst (CanI sampleAuth carolCtx [''x:read'', ''y:write''])
       = Some (StatusErr PermissionDenied
           ''You do not have sufficient permissions. Required [x:read y:write] to perform this action'' [])"
  using no_roles_denied [of sampleStore "''carol''" "[''x:read'', ''y:write'']" carolCtx
      "\<lparr>Claims.ID = ''u3'', Claims.Username = ''carol'', Claims.DisplayName = ''Carol''\<rparr>"
      sampleAuth]
  by (simp add: sample_defs deniedMessage_def formatStrings_def)

text \<open>
  Claim C10.  For a context that carries no claims value, \<open>ClaimsFromContext\<close> returns a
  \<open>Claims\<close> object whose three fields are empty.  \<open>CanI\<close> on such a context, with a
  non-empty list of permission names, reads the roles of the empty username and is
  decided by them.  As the claim is written it fails: where the store holds roles for
  the empty username that cover the request, access is granted, and where the store
  fails, its wrapped error comes back.
\<close>

theorem unauthenticated_context_granted:
  "fst (CanI ghostAuth None [''x:read'', ''x:write'']) = None
   \<and> fst (CanI ghostAuth (Some OtherValue) [''x:read'', ''x:write'']) = None
   \<and> fst (CanI failingAuth None [''x:read''])
       = Some (Wrapped ''failed to execute query'' (DriverErr ''connection refused''))"
  by (simp add: CanI_def ClaimsFromContext_def emptyClaims_def listRolesByUsername_def
      ghostAuth_def failingAuth_def roleB_def checkMissingPermissions_filter
      roleToPermissions_concat)

text \<open>
  Claim C10, as amended.  On a context without a claims value the decision is the one
  for the roles the store returns for the empty username: no error when they cover the
  want list, \<open>PermissionDenied\<close> with the missing names otherwise, and so
  \<open>PermissionDenied\<close> with every requested name when the store holds no role for the
  empty username.  Whatever the store answers, \<open>CanI\<close> never returns an
  \<open>Unauthenticated\<close> status.
\<close>

theorem unauthenticated_context_denied:
  "((\<forall>p. c \<noteq> Some (ClaimsPtr p)) \<longrightarrow>
      ClaimsFromContext c
        = Some \<lparr>Claims.ID = [], Claims.Username = [], Claims.DisplayName = []\<rparr>)
   \<and> ((\<forall>p. c \<noteq> Some (ClaimsPtr p)) \<and> permissions \<noteq> []
        \<and> Query (db s) [] = Inr (map Inr rs, None) \<longrightarrow>
      fst (CanI s c permissions)
        = (if set permissions \<subseteq> (\<Union>r \<in> set rs. set (Permissions r)) then None
           else Some (StatusErr PermissionDenied
             (deniedMessage
               (filter (\<lambda>p. p \<notin> (\<Union>r \<in> set rs. set (Permissions r))) permissions)) []))
      \<and> issued (db (snd (CanI s c permissions))) = issued (db s) @ [RolesRead []])
   \<and> ((\<forall>p. c \<noteq> Some (ClaimsPtr p)) \<and> permissions \<noteq> []
        \<and> Query (db s) [] = Inr ([], None) \<longrightarrow>
      fst (CanI s c permissions)
        = Some (StatusErr PermissionDenied (deniedMessage permissions) [])
      \<and> issued (db (snd (CanI s c permissions))) = issued (db s) @ [RolesRead []])
   \<and> fst (CanI s c permissions) \<noteq> Some (StatusErr Unauthenticated m v)"
proof (intro conjI impI)
  assume "\<forall>p. c \<noteq> Some (ClaimsPtr p)"
  then show "ClaimsFromContext c
        = Some \<lparr>Claims.ID = [], Claims.Username = [], Claims.DisplayName = []\<rparr>"
    by (simp add: no_claims_empty emptyClaims_def)
next
  assume h: "(\<forall>p. c \<noteq> Some (ClaimsPtr p)) \<and> permissions \<noteq> []
        \<and> Query (db s) [] = Inr (map Inr rs, None)"
  then have cl: "ClaimsFromContext c = Some emptyClaims"
    by (simp add: no_claims_empty)
  from h have h1: "permissions \<noteq> []" by blast
  from h have "Query (db s) (Claims.Username emptyClaims) = Inr (map Inr rs, None)"
    by (simp add: emptyClaims_def)
  note res = CanI_resolved [OF h1 cl listRoles_rows [OF this]]
  have sub: "(filter (\<lambda>p. p \<notin> set (roleToPermissions rs)) permissions = [])
          = (set permissions \<subseteq> set (roleToPermissions rs))"
    by (auto simp: filter_empty_conv)
  from res sub show "fst (CanI s c permissions)
        = (if set permissions \<subseteq> (\<Union>r \<in> set rs. set (Permissions r)) then None
           else Some (StatusErr PermissionDenied
             (deniedMessage
               (filter (\<lambda>p. p \<notin> (\<Union>r \<in> set rs. set (Permissions r))) permissions)) []))"
    by (simp add: Let_def checkMissingPermissions_filter effective_set)
  from res show "issued (db (snd (CanI s c permissions))) = issued (db s) @ [RolesRead []]"
    by (simp add: Let_def emptyClaims_def)
next
  assume h: "(\<forall>p. c \<noteq> Some (ClaimsPtr p)) \<and> permissions \<noteq> []
        \<and> Query (db s) [] = Inr ([], None)"
  then have cl: "ClaimsFromContext c = Some emptyClaims"
    by (simp add: no_claims_empty)
  from h have h1: "permissions \<noteq> []" by blast
  from h have "Query (db s) (Claims.Username emptyClaims) = Inr ([], None)"
    by (simp add: emptyClaims_def)
  note res = CanI_resolved [OF h1 cl listRoles_no_rows [OF this]]
  have none: "roleToPermissions [] = []"
    by (simp add: roleToPermissions_def)
  from res h1 show "fst (CanI s c permissions)
        = Some (StatusErr PermissionDenied (deniedMessage permissions) [])"
    by (simp add: none checkMissing_nothing_had)
  from res h1 show "issued (db (snd (CanI s c permissions))) = issued (db s) @ [RolesRead []]"
    by (simp add: none checkMissing_nothing_had emptyClaims_def)
next
  show "fst (CanI s c permissions) \<noteq> Some (StatusErr Unauthenticated m v)"
    by (rule CanI_never_Unauthenticated)
qed

theorem unauthenticated_context_denied_witness:
  "ClaimsFromContext None
     = Some \<lparr>Claims.ID = [], Claims.Username = [], Claims.DisplayName = []\<rparr>
   \<and> fst (CanI sampleAuth None [''x:read''])
       = Some (StatusErr PermissionDenied
           ''You do not have sufficient permissions. Required [x:read] to perform this action'' [])
   \<and> issued (db (snd (CanI sampleAuth None [''x:read'']))) = [RolesRead []]
   \<and> fst (CanI ghostAuth None [''x:read'', ''x:delete''])
       = Some (StatusErr PermissionDenied
           ''You do not have sufficient permissions. Required [x:delete] to perform this action'' [])"
  using unauthenticated_context_denied [of None "[''x:read'']" sampleAuth "[]"]
    unauthenticated_context_denied [of None "[''x:read'', ''x:delete'']" ghostAuth "[roleB]"]
  by (simp add: sample_defs ghostAuth_def deniedMessage_def formatStrings_def)

section \<open>Login and refresh\<close>

text \<open>
  Claim C2.  \<open>Login\<close> on the sample store: a wrong password for the enabled \<open>alice\<close> and
  the right password for the disabled \<open>bob\<close> both fail with an \<open>Unauthenticated\<close> status,
  but with two different messages (the second one is the message of \<open>RefreshToken\<close>), so
  the two errors differ.
\<close>

theorem Login_failure_messages_differ:
  "fst (Login sampleExtern sampleAuth 0 \<lparr>LoginReq.Username = ''alice'', Password = ''wrong''\<rparr>)
     = Inl (StatusErr Unauthenticated
         ''Your credentials not valid. Please check your username and password and try again.'' [])
   \<and> fst (Login sampleExtern sampleAuth 0 \<lparr>LoginReq.Username = ''bob'', Password = ''builder''\<rparr>)
     = Inl (StatusErr Unauthenticated
         ''Your credentials not valid. Please check your token and try again.'' [])
   \<and> fst (Login sampleExtern sampleAuth 0 \<lparr>LoginReq.Username = ''alice'', Password = ''wrong''\<rparr>)
     \<noteq> fst (Login sampleExtern sampleAuth 0 \<lparr>LoginReq.Username = ''bob'', Password = ''builder''\<rparr>)"
  by (simp add: sample_defs service_defs)

text \<open>
  Claim C3.  The token library writes every time as RFC 3339 text, which has no
  fractional seconds.  Minted half a second after the start of the epoch, the pair is
  the one minted at its start: the expiration written is the second 3600, not the mint
  time plus one hour.
\<close>

theorem genToken_expiration_whole_seconds:
  "genToken sampleExtern sampleAuth 500000000 alice
     = Inr \<lparr>Access = ''access-key:1970-01-01T01:00:00Z'',
            Refresh = ''refresh-key:1970-01-08T00:00:00Z''\<rparr>
   \<and> genToken sampleExtern sampleAuth 500000000 alice = genToken sampleExtern sampleAuth 0 alice
   \<and> Format_RFC3339 sampleExtern (500000000 + Hour) = ''1970-01-01T01:00:00Z''
   \<and> Format_RFC3339 sampleExtern (3600 * 1000000000) = ''1970-01-01T01:00:00Z''
   \<and> 500000000 + Hour \<noteq> 3600 * 1000000000"
  by (simp add: genToken_value sampleExtern_def sampleAuth_def Format_RFC3339_def Hour_def)

text \<open>
  Claim C3, as amended.  For every principal and mint time \<open>now\<close>, \<open>genToken\<close> returns the
  encryption under the access key of a token whose expiration is the text of \<open>now\<close> plus
  one hour, that is of the second 3600 after the whole second of \<open>now\<close>, and the
  encryption under the refresh key of the same token with only the expiration replaced
  by the text of \<open>now\<close> plus seven days, the second 604800 after it: subject, issued-at,
  not-before (both the whole second of \<open>now\<close>), footer and embedded claims are the same.
\<close>

theorem genToken_pair:
  "\<exists>ta tr.
     genToken x s now u
       = Inr \<lparr>Access = V4Encrypt x (aKey s) ta, Refresh = V4Encrypt x (rKey s) tr\<rparr>
     \<and> ta = \<lparr>token_claims =
               [''sub'' \<mapsto> StringValue (User.Username u),
                ''iat'' \<mapsto> StringValue (RFC3339 x (now div 1000000000)),
                ''nbf'' \<mapsto> StringValue (RFC3339 x (now div 1000000000)),
                ''exp'' \<mapsto> StringValue (RFC3339 x (now div 1000000000 + 3600)),
                ''profile'' \<mapsto> ObjectValue (toClaims u)],
             token_footer = RFC3339 x (now div 1000000000)\<rparr>
     \<and> tr = ta\<lparr>token_claims :=
               (token_claims ta)(''exp'' \<mapsto>
                  StringValue (RFC3339 x (now div 1000000000 + 7 * 24 * 3600)))\<rparr>
     \<and> token_claims ta ''exp'' = Some (StringValue (Format_RFC3339 x (now + Hour)))
     \<and> token_claims tr ''exp'' = Some (StringValue (Format_RFC3339 x (now + 7 * 24 * Hour)))
     \<and> token_claims tr ''sub'' = token_claims ta ''sub''
     \<and> token_claims tr ''iat'' = token_claims ta ''iat''
     \<and> token_claims tr ''nbf'' = token_claims ta ''nbf''
     \<and> token_claims tr ''profile'' = token_claims ta ''profile''
     \<and> token_footer tr = token_footer ta"
proof -
  have a: "(now + Hour) div 1000000000 = now div 1000000000 + 3600"
    using seconds_shift [of now 3600] by (simp add: Hour_def)
  have b: "(now + 168 * Hour) div 1000000000 = now div 1000000000 + 604800"
    using seconds_shift [of now 604800] by (simp add: Hour_def)
  show ?thesis
    by (simp add: genToken_value Format_RFC3339_def a b)
qed

text \<open>
  Claim C6.  For a principal whose status is not \<open>StatusEnabled\<close>, a well-formed login
  fails with an \<open>Unauthenticated\<close> status (after the password check, when the password
  is right), and so does a refresh whose token parses and carries claims.  Conversely,
  whenever \<open>Login\<close> or \<open>RefreshToken\<close> returns a token pair, the store has returned a
  principal whose status is \<open>StatusEnabled\<close>.
\<close>

theorem only_enabled_authenticate:
  "(Validate req = None \<and> QueryRow (db s) (LoginReq.Username req) = Inr u
      \<and> Status u \<noteq> StatusEnabled \<longrightarrow>
      (\<exists>m. fst (Login x s now req) = Inl (StatusErr Unauthenticated m []))
      \<and> (ComparePassword x u (Password req) \<longrightarrow>
           fst (Login x s now req) = Inl (StatusErr Unauthenticated tokenMessage [])))
   \<and> (Token rreq \<noteq> [] \<and> ParseV4Local x (rKey s) (Token rreq) now = Inr t
      \<and> tokenGet ''profile'' t = Inr cl
      \<and> QueryRow (db s) (Claims.Username cl) = Inr u \<and> Status u \<noteq> StatusEnabled \<longrightarrow>
      fst (RefreshToken x s now now' rreq) = Inl (StatusErr Unauthenticated tokenMessage []))
   \<and> (\<forall>tok. fst (Login x s now req) = Inr tok \<longrightarrow>
         (\<exists>u'. QueryRow (db s) (LoginReq.Username req) = Inr u' \<and> Status u' = StatusEnabled))
   \<and> (\<forall>tok. fst (RefreshToken x s now now' rreq) = Inr tok \<longrightarrow>
         (\<exists>t' cl' u'. ParseV4Local x (rKey s) (Token rreq) now = Inr t'
            \<and> tokenGet ''profile'' t' = Inr cl'
            \<and> QueryRow (db s) (Claims.Username cl') = Inr u' \<and> Status u' = StatusEnabled))"
proof (intro conjI impI allI)
  assume h: "Validate req = None \<and> QueryRow (db s) (LoginReq.Username req) = Inr u
      \<and> Status u \<noteq> StatusEnabled"
  then have v: "Validate req = None" and q: "QueryRow (db s) (LoginReq.Username req) = Inr u"
    and st: "\<not> IsEnabled u"
    by (simp_all add: IsEnabled_def)
  from Login_found [OF v q] st
  show "\<exists>m. fst (Login x s now req) = Inl (StatusErr Unauthenticated m [])"
    by simp
  assume "ComparePassword x u (Password req)"
  with Login_found [OF v q] st
  show "fst (Login x s now req) = Inl (StatusErr Unauthenticated tokenMessage [])"
    by simp
next
  assume h: "Token rreq \<noteq> [] \<and> ParseV4Local x (rKey s) (Token rreq) now = Inr t
      \<and> tokenGet ''profile'' t = Inr cl
      \<and> QueryRow (db s) (Claims.Username cl) = Inr u \<and> Status u \<noteq> StatusEnabled"
  then have a: "Token rreq \<noteq> []" and b: "ParseV4Local x (rKey s) (Token rreq) now = Inr t"
    and c: "tokenGet ''profile'' t = Inr cl"
    and d: "QueryRow (db s) (Claims.Username cl) = Inr u" and st: "\<not> IsEnabled u"
    by (simp_all add: IsEnabled_def)
  from Refresh_found [OF a b c d] st
  show "fst (RefreshToken x s now now' rreq) = Inl (StatusErr Unauthenticated tokenMessage [])"
    by simp
next
  fix tok
  assume "fst (Login x s now req) = Inr tok"
  then show "\<exists>u'. QueryRow (db s) (LoginReq.Username req) = Inr u' \<and> Status u' = StatusEnabled"
    by (rule Login_success)
next
  fix tok
  assume "fst (RefreshToken x s now now' rreq) = Inr tok"
  then show "\<exists>t' cl' u'. ParseV4Local x (rKey s) (Token rreq) now = Inr t'
            \<and> tokenGet ''profile'' t' = Inr cl'
            \<and> QueryRow (db s) (Claims.Username cl') = Inr u' \<and> Status u' = StatusEnabled"
    by (rule Refresh_success)
qed

theorem only_enabled_authenticate_witness:
  "fst (Login sampleExtern sampleAuth 0 \<lparr>LoginReq.Username = ''bob'', Password = ''builder''\<rparr>)
     = Inl (StatusErr Unauthenticated
         ''Your credentials not valid. Please check your token and try again.'' [])
   \<and> fst (RefreshToken sampleExtern sampleAuth 0 1 \<lparr>Token = ''refresh-key:bob''\<rparr>)
     = Inl (StatusErr Unauthenticated
         ''Your credentials not valid. Please check your token and try again.'' [])
   \<and> fst (Login sampleExtern sampleAuth 0 \<lparr>LoginReq.Username = ''alice'', Password = ''wonderland''\<rparr>)
     = Inr \<lparr>Access = ''access-key:1970-01-01T01:00:00Z'',
            Refresh = ''refresh-key:1970-01-08T00:00:00Z''\<rparr>"
  using only_enabled_authenticate [of "\<lparr>LoginReq.Username = ''bob'', Password = ''builder''\<rparr>" sampleAuth bob
      sampleExtern 0 "\<lparr>Token = ''refresh-key:bob''\<rparr>"
      "\<lparr>token_claims = [''profile'' \<mapsto> ObjectValue (toClaims bob)], token_footer = []\<rparr>"
      "toClaims bob" 1]
  by (simp add: sample_defs service_defs genToken_value)

text \<open>
  Claim C8.  When the store has no row for the username (of a well-formed login request,
  or of the claims of a refresh token that parses), \<open>Login\<close> and \<open>RefreshToken\<close> return an
  \<open>Unauthenticated\<close> status; and no error either of them returns is, or wraps,
  \<open>ErrUserNotFound\<close>.
\<close>

theorem not_found_is_unauthenticated:
  "(Validate req = None \<and> QueryRow (db s) (LoginReq.Username req) = Inl e
      \<and> errorsIs e ErrNoRows \<longrightarrow>
      fst (Login x s now req) = Inl (StatusErr Unauthenticated credentialsMessage []))
   \<and> (Token rreq \<noteq> [] \<and> ParseV4Local x (rKey s) (Token rreq) now = Inr t
      \<and> tokenGet ''profile'' t = Inr cl
      \<and> QueryRow (db s) (Claims.Username cl) = Inl e \<and> errorsIs e ErrNoRows \<longrightarrow>
      fst (RefreshToken x s now now' rreq) = Inl (StatusErr Unauthenticated tokenMessage []))
   \<and> (\<forall>err. fst (Login x s now req) = Inl err \<longrightarrow> \<not> errorsIs err ErrUserNotFound)
   \<and> (\<forall>err. fst (RefreshToken x s now now' rreq) = Inl err
         \<longrightarrow> \<not> errorsIs err ErrUserNotFound)"
proof (intro conjI impI allI)
  assume "Validate req = None \<and> QueryRow (db s) (LoginReq.Username req) = Inl e
      \<and> errorsIs e ErrNoRows"
  then show "fst (Login x s now req) = Inl (StatusErr Unauthenticated credentialsMessage [])"
    using Login_not_found by blast
next
  assume "Token rreq \<noteq> [] \<and> ParseV4Local x (rKey s) (Token rreq) now = Inr t
      \<and> tokenGet ''profile'' t = Inr cl
      \<and> QueryRow (db s) (Claims.Username cl) = Inl e \<and> errorsIs e ErrNoRows"
  then show "fst (RefreshToken x s now now' rreq)
      = Inl (StatusErr Unauthenticated tokenMessage [])"
    using Refresh_not_found by blast
next
  fix err
  assume "fst (Login x s now req) = Inl err"
  then show "\<not> errorsIs err ErrUserNotFound"
    by (rule Login_error_not_NotFound)
next
  fix err
  assume "fst (RefreshToken x s now now' rreq) = Inl err"
  then show "\<not> errorsIs err ErrUserNotFound"
    by (rule Refresh_error_not_NotFound)
qed

theorem not_found_is_unauthenticated_witness:
  "fst (Login sampleExtern sampleAuth 0 \<lparr>LoginReq.Username = ''dave'', Password = ''secret''\<rparr>)
     = Inl (StatusErr Unauthenticated
         ''Your credentials not valid. Please check your username and password and try again.'' [])
   \<and> fst (RefreshToken sampleExtern sampleAuth 0 1 \<lparr>Token = ''refresh-key:dave''\<rparr>)
     = Inl (StatusErr Unauthenticated
         ''Your credentials not valid. Please check your token and try again.'' [])"
  using not_found_is_unauthenticated [of "\<lparr>LoginReq.Username = ''dave'', Password = ''secret''\<rparr>" sampleAuth ErrNoRows
      sampleExtern 0 "\<lparr>Token = ''refresh-key:dave''\<rparr>"
      "\<lparr>token_claims = [''profile'' \<mapsto> ObjectValue
          \<lparr>Claims.ID = ''u4'', Claims.Username = ''dave'', Claims.DisplayName = ''Dave''\<rparr>],
        token_footer = []\<rparr>"
      "\<lparr>Claims.ID = ''u4'', Claims.Username = ''dave'', Claims.DisplayName = ''Dave''\<rparr>" 1]
  by (simp add: sample_defs service_defs)

section \<open>Decoding a status\<close>

text \<open>
  Claim C9.  The string \<open>7\<close> is not a name of the mapping table, and yet \<open>UnmarshalJSON\<close>
  accepts it (between its quotes) and stores the status 7, which is none of the four
  constants.
\<close>

theorem UnmarshalJSON_accepts_unknown_number:
  "statusValues ''7'' = None
   \<and> UnmarshalJSON StatusUnSpecified [CHR 0x22, CHR ''7'', CHR 0x22] = Inr 7
   \<and> (7::int) \<notin> {StatusUnSpecified, StatusDisabled, StatusTerminated, StatusEnabled}"
  by (simp add: UnmarshalJSON_def statusValues_def Atoi_def isDigit_def Let_def
      StatusUnSpecified_def StatusDisabled_def StatusTerminated_def StatusEnabled_def)

text \<open>
  Claim C9, as amended.  \<open>Scan\<close> returns an error for every string and every byte slice
  that is not a name of the mapping table, and for every value of another type.
  \<open>UnmarshalJSON\<close>, on an input of at least two bytes other than \<open>null\<close>, returns an
  error when the text between the first and the last byte is neither a name of the table
  nor a decimal integer that \<open>strconv.Atoi\<close> accepts (in particular when it holds any
  character other than a digit or a sign); a decimal integer is accepted and stored as
  the status.
\<close>

theorem status_decoding_rejects:
  "(statusValues x = None \<longrightarrow>
      Scan s (SrcString x) = Inl (Plain (''invalid status: '' @ x))
      \<and> Scan s (SrcBytes x) = Inl (Plain (''invalid status: '' @ formatBytes x)))
   \<and> Scan s (SrcOther y) = Inl (Plain (''invalid status: '' @ y))
   \<and> (b \<noteq> ''null'' \<and> 2 \<le> length b
        \<and> statusValues (take (length b - 2) (drop 1 b)) = None
        \<and> Atoi (take (length b - 2) (drop 1 b)) = None \<longrightarrow>
      UnmarshalJSON s b
        = Inl (Plain (''invalid status: '' @ take (length b - 2) (drop 1 b))))
   \<and> (b \<noteq> ''null'' \<and> 2 \<le> length b
        \<and> statusValues (take (length b - 2) (drop 1 b)) = None
        \<and> (\<exists>c \<in> set (take (length b - 2) (drop 1 b)).
              \<not> isDigit c \<and> c \<noteq> CHR ''-'' \<and> c \<noteq> CHR ''+'') \<longrightarrow>
      UnmarshalJSON s b
        = Inl (Plain (''invalid status: '' @ take (length b - 2) (drop 1 b))))
   \<and> (b \<noteq> ''null'' \<and> 2 \<le> length b
        \<and> statusValues (take (length b - 2) (drop 1 b)) = None
        \<and> Atoi (take (length b - 2) (drop 1 b)) = Some v \<longrightarrow>
      UnmarshalJSON s b = Inr v)"
proof (intro conjI impI)
  assume "statusValues x = None"
  then show "Scan s (SrcString x) = Inl (Plain (''invalid status: '' @ x))"
    and "Scan s (SrcBytes x) = Inl (Plain (''invalid status: '' @ formatBytes x))"
    by (simp_all add: Scan_def)
next
  show "Scan s (SrcOther y) = Inl (Plain (''invalid status: '' @ y))"
    by (simp add: Scan_def)
next
  assume "b \<noteq> ''null'' \<and> 2 \<le> length b
        \<and> statusValues (take (length b - 2) (drop 1 b)) = None
        \<and> Atoi (take (length b - 2) (drop 1 b)) = None"
  then show "UnmarshalJSON s b
        = Inl (Plain (''invalid status: '' @ take (length b - 2) (drop 1 b)))"
    by (simp add: UnmarshalJSON_def Let_def)
next
  assume h: "b \<noteq> ''null'' \<and> 2 \<le> length b
        \<and> statusValues (take (length b - 2) (drop 1 b)) = None
        \<and> (\<exists>c \<in> set (take (length b - 2) (drop 1 b)).
              \<not> isDigit c \<and> c \<noteq> CHR ''-'' \<and> c \<noteq> CHR ''+'')"
  then have "Atoi (take (length b - 2) (drop 1 b)) = None"
    using Atoi_non_numeral by blast
  with h show "UnmarshalJSON s b
        = Inl (Plain (''invalid status: '' @ take (length b - 2) (drop 1 b)))"
    by (simp add: UnmarshalJSON_def Let_def)
next
  assume "b \<noteq> ''null'' \<and> 2 \<le> length b
        \<and> statusValues (take (length b - 2) (drop 1 b)) = None
        \<and> Atoi (take (length b - 2) (drop 1 b)) = Some v"
  then show "UnmarshalJSON s b = Inr v"
    by (simp add: UnmarshalJSON_def Let_def)
qed

theorem status_decoding_rejects_witness:
  "Scan StatusEnabled (SrcString ''PAUSED'') = Inl (Plain ''invalid status: PAUSED'')
   \<and> UnmarshalJSON StatusEnabled [CHR 0x22, CHR ''P'', CHR ''A'', CHR 0x22]
       = Inl (Plain ''invalid status: PA'')
   \<and> UnmarshalJSON StatusEnabled [CHR 0x22, CHR ''7'', CHR 0x22] = Inr 7"
  using status_decoding_rejects [of "''PAUSED''" StatusEnabled "[]" "[CHR 0x22, CHR ''P'', CHR ''A'', CHR 0x22]" 0]
    status_decoding_rejects [of "''PAUSED''" StatusEnabled "[]" "[CHR 0x22, CHR ''7'', CHR 0x22]" 7]
  by (simp add: statusValues_def Atoi_def isDigit_def Let_def)

end
